theory Spec2Isabelle
  imports Main
begin

section \<open>Values of the Python program\<close>

text \<open>
  The registry, the agent configurations, the chat messages, the request body and the
  backend's reply are all what \<^verbatim>\<open>json.loads\<close> or the host hand to the program:
  JSON values held in Python dicts, lists, strings and numbers. A Python dict is an
  association list (JSON object keys are strings; the decoder never leaves a duplicate
  key). Of a float the program only ever observes whether it is zero.
\<close>

datatype pyfloat = Finite int int | Infinite bool | NaN

datatype json =
    JNull
  | JBool bool
  | JInt int
  | JFloat pyfloat
  | JStr string
  | JArr "json list"
  | JObj "(string \<times> json) list"

text \<open>Python truthiness (\<^verbatim>\<open>not x\<close>, \<^verbatim>\<open>if x\<close>) of such a value.\<close>

fun float_nonzero :: "pyfloat \<Rightarrow> bool" where
  "float_nonzero (Finite m e) = (m \<noteq> 0)"
| "float_nonzero (Infinite s) = True"
| "float_nonzero NaN = True"

fun truthy :: "json \<Rightarrow> bool" where
  "truthy JNull = False"
| "truthy (JBool b) = b"
| "truthy (JInt i) = (i \<noteq> 0)"
| "truthy (JFloat f) = float_nonzero f"
| "truthy (JStr s) = (s \<noteq> [])"
| "truthy (JArr xs) = (xs \<noteq> [])"
| "truthy (JObj kvs) = (kvs \<noteq> [])"

fun type_name :: "json \<Rightarrow> string" where
  "type_name JNull = ''NoneType''"
| "type_name (JBool b) = ''bool''"
| "type_name (JInt i) = ''int''"
| "type_name (JFloat f) = ''float''"
| "type_name (JStr s) = ''str''"
| "type_name (JArr xs) = ''list''"
| "type_name (JObj kvs) = ''dict''"

subsection \<open>The HTTP library's response object and the exceptions\<close>

text \<open>
  What the program reads of a \<^verbatim>\<open>requests.Response\<close>: the status code, the body text and
  the outcome of \<^verbatim>\<open>response.json()\<close> (\<open>Inl\<close> is the message of the decode error it
  raises). \<open>reason\<close> and \<open>resp_url\<close> only enter the message of the HTTPError.
\<close>

record http_response =
  status_code :: int
  reason :: string
  resp_url :: string
  body_text :: string
  json_result :: "string + json"

datatype exn =
    AttributeError string string
  | KeyError string
  | TypeError string
  | IndexError string
  | HTTPError string "http_response option"
  | RequestFailure string
  | JSONDecodeError string
  | UnicodeEncodeError string string
  | OtherError string string

text \<open>
  \<^verbatim>\<open>str(e)\<close> as CPython prints it. A UnicodeEncodeError carries the text that could
  not be written and its message; \<open>OtherError\<close> is any other exception class (RecursionError,
  ValueError, ...) with its message.
\<close>

fun exn_str :: "exn \<Rightarrow> string" where
  "exn_str (AttributeError ty attr) =
     [CHR 0x27] @ ty @ [CHR 0x27] @ '' object has no attribute '' @ [CHR 0x27] @ attr @ [CHR 0x27]"
| "exn_str (KeyError k) = k"
| "exn_str (TypeError m) = m"
| "exn_str (IndexError m) = m"
| "exn_str (HTTPError m r) = m"
| "exn_str (RequestFailure m) = m"
| "exn_str (JSONDecodeError m) = m"
| "exn_str (UnicodeEncodeError t m) = m"
| "exn_str (OtherError cls m) = m"

definition bind_exn :: "exn + 'a \<Rightarrow> ('a \<Rightarrow> exn + 'b) \<Rightarrow> exn + 'b" where
  "bind_exn m f = (case m of Inl e \<Rightarrow> Inl e | Inr x \<Rightarrow> f x)"

subsection \<open>The operations on values the program uses\<close>

text \<open>\<^verbatim>\<open>obj.get(key, default)\<close>: only a dict has the method.\<close>

definition py_get :: "json \<Rightarrow> string \<Rightarrow> json \<Rightarrow> exn + json" where
  "py_get obj key dflt =
     (case obj of
        JObj kvs \<Rightarrow> Inr (case map_of kvs key of Some v \<Rightarrow> v | None \<Rightarrow> dflt)
      | _ \<Rightarrow> Inl (AttributeError (type_name obj) ''get''))"

text \<open>\<^verbatim>\<open>obj[key]\<close> with a string key.\<close>

definition py_getitem_str :: "json \<Rightarrow> string \<Rightarrow> exn + json" where
  "py_getitem_str obj key =
     (case obj of
        JObj kvs \<Rightarrow>
          (case map_of kvs key of
             Some v \<Rightarrow> Inr v
           | None \<Rightarrow> Inl (KeyError ([CHR 0x27] @ key @ [CHR 0x27])))
      | JArr xs \<Rightarrow> Inl (TypeError ''list indices must be integers or slices, not str'')
      | JStr s \<Rightarrow> Inl (TypeError ''string indices must be integers'')
      | _ \<Rightarrow> Inl (TypeError ([CHR 0x27] @ type_name obj @ [CHR 0x27] @ '' object is not subscriptable'')))"

text \<open>\<^verbatim>\<open>obj[0]\<close>. No key of a decoded JSON object is the integer 0.\<close>

definition py_getitem_0 :: "json \<Rightarrow> exn + json" where
  "py_getitem_0 obj =
     (case obj of
        JArr xs \<Rightarrow> (case xs of [] \<Rightarrow> Inl (IndexError ''list index out of range'') | x # _ \<Rightarrow> Inr x)
      | JStr s \<Rightarrow> (case s of [] \<Rightarrow> Inl (IndexError ''string index out of range'') | c # _ \<Rightarrow> Inr (JStr [c]))
      | JObj kvs \<Rightarrow> Inl (KeyError ''0'')
      | _ \<Rightarrow> Inl (TypeError ([CHR 0x27] @ type_name obj @ [CHR 0x27] @ '' object is not subscriptable'')))"

text \<open>\<^verbatim>\<open>len(obj)\<close>.\<close>

definition py_len :: "json \<Rightarrow> exn + nat" where
  "py_len obj =
     (case obj of
        JObj kvs \<Rightarrow> Inr (length kvs)
      | JArr xs \<Rightarrow> Inr (length xs)
      | JStr s \<Rightarrow> Inr (length s)
      | _ \<Rightarrow> Inl (TypeError (''object of type '' @ [CHR 0x27] @ type_name obj @ [CHR 0x27] @ '' has no len()'')))"

text \<open>
  \<^verbatim>\<open>s.strip()\<close> and \<^verbatim>\<open>s.rstrip('/')\<close>. A \<open>char\<close> stands for a code point below 256;
  those are the ones \<^verbatim>\<open>str.isspace\<close> accepts there.
\<close>

definition py_isspace :: "char \<Rightarrow> bool" where
  "py_isspace c = ((of_char c :: nat) \<in> set [9, 10, 11, 12, 13, 28, 29, 30, 31, 32, 133, 160])"

definition rstrip_chars :: "(char \<Rightarrow> bool) \<Rightarrow> string \<Rightarrow> string" where
  "rstrip_chars P s = rev (dropWhile P (rev s))"

definition strip :: "string \<Rightarrow> string" where
  "strip s = rstrip_chars py_isspace (dropWhile py_isspace s)"

definition py_strip :: "json \<Rightarrow> exn + string" where
  "py_strip v = (case v of JStr s \<Rightarrow> Inr (strip s) | _ \<Rightarrow> Inl (AttributeError (type_name v) ''strip''))"

text \<open>An integer in an f-string.\<close>

fun digits :: "nat \<Rightarrow> string" where
  "digits n = (if n < 10 then [char_of (48 + n)] else digits (n div 10) @ [char_of (48 + n mod 10)])"

declare digits.simps [simp del]

definition show_int :: "int \<Rightarrow> string" where
  "show_int i = (if i < 0 then CHR ''-'' # digits (nat (- i)) else digits (nat i))"

text \<open>\<^verbatim>\<open>xs[-n:]\<close>: the slice from \<open>n\<close> places before the end, from the start when the list is shorter.\<close>

definition slice_last :: "nat \<Rightarrow> 'a list \<Rightarrow> 'a list" where
  "slice_last n xs = drop (nat (max (int (length xs) - int n) 0)) xs"

section \<open>Configuration, environment and the outside world\<close>

text \<open>
  \<^verbatim>\<open>Pipeline.Valves\<close>: four string attributes, each with a default, so every
  \<^verbatim>\<open>getattr(self.valves, ..., default)\<close> of the program finds its attribute.
\<close>

record valves =
  OPENAI_API_BASE_URL :: string
  OPENAI_API_KEY :: string
  DEFAULT_AGENT_MODEL_ID :: string
  AGENT_CONFIGS_JSON :: string

record http_request =
  req_url :: string
  req_headers :: "(string \<times> string) list"
  req_json :: json

text \<open>
  What \<^verbatim>\<open>requests.post\<close> does: it raises (a connection error, a timeout, ...: an
  exception that is not an HTTPError, with its message), or it returns a response.
\<close>

datatype post_outcome = PostRaises string | Responded http_response

text \<open>
  The library functions the program calls, the network and the standard output behind
  them. \<open>net\<close> answers a request given all requests sent so far (the last one is the
  request itself). \<open>loads\<close> is \<^verbatim>\<open>json.loads\<close>: it returns the value or raises, a
  JSONDecodeError on text that is not JSON, and other exceptions too (RecursionError on
  deep nesting, ValueError on an integer of too many digits). \<open>dumps\<close> is
  \<^verbatim>\<open>json.dumps\<close>. \<open>stdout_encodes\<close> tells whether the encoding of the standard
  output can write a text (UTF-8 refuses a lone surrogate, ASCII every character from
  128 on; a \<open>char\<close> stands for a character of the Python string), and
  \<open>codec_message\<close> is the message of the UnicodeEncodeError it raises otherwise.
\<close>

record environment =
  net :: "http_request list \<Rightarrow> post_outcome"
  loads :: "string \<Rightarrow> exn + json"
  dumps :: "json \<Rightarrow> string"
  stdout_encodes :: "string \<Rightarrow> bool"
  codec_message :: "string \<Rightarrow> string"

text \<open>
  \<^verbatim>\<open>print(f"...")\<close>, given the strings the f-string formats directly (\<^verbatim>\<open>{x}\<close> with
  \<open>x\<close> a string): it raises UnicodeEncodeError at the first one the standard output
  cannot encode. The literal parts of the program's messages are ASCII, and a list or a
  dict is formatted through \<^verbatim>\<open>repr\<close>; these are taken to be written without error.
  What is written is not kept.
\<close>

definition py_print :: "environment \<Rightarrow> string list \<Rightarrow> exn + unit" where
  "py_print E parts =
     (case filter (\<lambda>t. \<not> stdout_encodes E t) parts of
        [] \<Rightarrow> Inr ()
      | t # ts \<Rightarrow> Inl (UnicodeEncodeError t (codec_message E t)))"

text \<open>The part of a value an f-string formats directly: the value itself when it is a string.\<close>

definition direct_text :: "json \<Rightarrow> string list" where
  "direct_text v = (case v of JStr s \<Rightarrow> [s] | _ \<Rightarrow> [])"

text \<open>
  The effects a dispatch leaves behind: every invocation of \<^verbatim>\<open>_call_llm\<close> (its messages
  and its model id) and every HTTP request sent, oldest first.
\<close>

record world =
  llm_calls :: "(json list \<times> json) list"
  posts :: "http_request list"

section \<open>The coordinator\<close>

record coordinator =
  c_valves :: valves
  agent_configs :: json

text \<open>
  \<^verbatim>\<open>AgentCoordinator.__init__\<close>. A blob that decodes is stored as it is, and its
  \<^verbatim>\<open>len\<close> is printed inside the \<^verbatim>\<open>try\<close>: of a number, a boolean or null that
  raises TypeError. The handlers catch JSONDecodeError (it prints the error and the blob,
  then takes the empty registry) and AttributeError; any other exception, and one raised
  by a handler's own print, leaves the constructor.
\<close>

definition AgentCoordinator_init :: "environment \<Rightarrow> valves \<Rightarrow> exn + coordinator" where
  "AgentCoordinator_init E v =
     (case bind_exn (loads E (AGENT_CONFIGS_JSON v)) (\<lambda>cfgs.
           bind_exn (py_len cfgs) (\<lambda>n. Inr cfgs)) of
        Inr cfgs \<Rightarrow> Inr \<lparr>c_valves = v, agent_configs = cfgs\<rparr>
      | Inl (JSONDecodeError m) \<Rightarrow>
          bind_exn (py_print E [m]) (\<lambda>u.
          bind_exn (py_print E [AGENT_CONFIGS_JSON v]) (\<lambda>u.
          Inr \<lparr>c_valves = v, agent_configs = JObj []\<rparr>))
      | Inl (AttributeError ty attr) \<Rightarrow> Inr \<lparr>c_valves = v, agent_configs = JObj []\<rparr>
      | Inl e \<Rightarrow> Inl e)"

subsection \<open>The backend call\<close>

text \<open>\<^verbatim>\<open>Response.raise_for_status\<close> and the truth value of a response (\<^verbatim>\<open>Response.ok\<close>).\<close>

definition http_error_msg :: "http_response \<Rightarrow> string" where
  "http_error_msg r =
     show_int (status_code r)
       @ (if status_code r < 500 then '' Client Error: '' else '' Server Error: '')
       @ reason r @ '' for url: '' @ resp_url r"

definition raise_for_status :: "http_response \<Rightarrow> exn + unit" where
  "raise_for_status r =
     (if 400 \<le> status_code r \<and> status_code r < 600
      then Inl (HTTPError (http_error_msg r) (Some r)) else Inr ())"

definition response_ok :: "http_response \<Rightarrow> bool" where
  "response_ok r = (case raise_for_status r of Inl e \<Rightarrow> False | Inr u \<Rightarrow> True)"

definition response_json :: "http_response \<Rightarrow> exn + json" where
  "response_json r = (case json_result r of Inl m \<Rightarrow> Inl (RequestFailure m) | Inr j \<Rightarrow> Inr j)"

text \<open>Lines 65 to 72: the content of the first choice, or the unexpected-structure message.\<close>

definition extract_content :: "environment \<Rightarrow> json \<Rightarrow> exn + string" where
  "extract_content E rj =
     bind_exn (py_get rj ''choices'' JNull) (\<lambda>choices.
     bind_exn (if truthy choices
               then bind_exn (py_getitem_str rj ''choices'') (\<lambda>cs.
                    bind_exn (py_getitem_0 cs) (\<lambda>c0.
                    bind_exn (py_get c0 ''message'' JNull) (\<lambda>m. Inr (truthy m))))
               else Inr False) (\<lambda>has_message.
     if has_message
     then bind_exn (py_getitem_str rj ''choices'') (\<lambda>cs.
          bind_exn (py_getitem_0 cs) (\<lambda>c0.
          bind_exn (py_getitem_str c0 ''message'') (\<lambda>m.
          bind_exn (py_get m ''content'' (JStr [])) (\<lambda>content.
          bind_exn (py_print E (direct_text content)) (\<lambda>u.
          py_strip content)))))
     else (let error_msg = ''Error: Unexpected LLM response structure. Full response: '' @ dumps E rj
           in bind_exn (py_print E [error_msg]) (\<lambda>u. Inr error_msg))))"

text \<open>The body of the \<^verbatim>\<open>try\<close>, given the outcome of the post.\<close>

definition llm_try :: "environment \<Rightarrow> post_outcome \<Rightarrow> exn + string" where
  "llm_try E out =
     (case out of
        PostRaises m \<Rightarrow> Inl (RequestFailure m)
      | Responded r \<Rightarrow>
          bind_exn (raise_for_status r) (\<lambda>u.
          bind_exn (response_json r) (\<lambda>rj. extract_content E rj)))"

text \<open>
  The two handlers. The first reads \<^verbatim>\<open>http_err.response.status_code\<close> whatever the
  truth value of the response was. Each prints its message before it returns it; an
  exception raised inside a handler is not caught by the handler after it.
\<close>

definition llm_except :: "environment \<Rightarrow> exn \<Rightarrow> exn + string" where
  "llm_except E e =
     (case e of
        HTTPError m ro \<Rightarrow>
          (let error_detail =
                 (case ro of
                    Some r \<Rightarrow> if response_ok r then body_text r else ''No response body''
                  | None \<Rightarrow> ''No response body'')
           in case ro of
                None \<Rightarrow> Inl (AttributeError ''NoneType'' ''status_code'')
              | Some r \<Rightarrow>
                  (let error_msg = ''Error: HTTP error '' @ show_int (status_code r) @ '' - '' @ error_detail
                   in bind_exn (py_print E [error_msg]) (\<lambda>u. Inr error_msg)))
      | _ \<Rightarrow>
          (let error_msg = ''Error: An unexpected error occurred during LLM call: '' @ exn_str e
           in bind_exn (py_print E [error_msg]) (\<lambda>u. Inr error_msg)))"

definition llm_request :: "valves \<Rightarrow> json list \<Rightarrow> json \<Rightarrow> http_request" where
  "llm_request v messages model_id =
     \<lparr>req_url = rstrip_chars (\<lambda>c. c = CHR ''/'') (OPENAI_API_BASE_URL v) @ ''/chat/completions'',
      req_headers = [(''Authorization'', ''Bearer '' @ OPENAI_API_KEY v),
                     (''Content-Type'', ''application/json'')],
      req_json = JObj [(''model'', model_id), (''messages'', JArr messages),
                       (''stream'', JBool False)]\<rparr>"

definition call_llm ::
  "environment \<Rightarrow> coordinator \<Rightarrow> json list \<Rightarrow> json \<Rightarrow> world \<Rightarrow> (exn + string) \<times> world" where
  "call_llm E c messages model_id w =
     (let w1 = w\<lparr>llm_calls := llm_calls w @ [(messages, model_id)]\<rparr>
      in case py_print E (direct_text model_id) of
           Inl e \<Rightarrow> (Inl e, w1)
         | Inr u \<Rightarrow>
             if OPENAI_API_KEY (c_valves c) = []
             then (Inr ''Error: OPENAI_API_KEY not configured.'', w1)
             else
               (let w2 = w1\<lparr>posts := posts w1 @ [llm_request (c_valves c) messages model_id]\<rparr>
                in (case llm_try E (net E (posts w2)) of
                      Inr s \<Rightarrow> Inr s
                    | Inl e \<Rightarrow> llm_except E e, w2)))"

subsection \<open>The dispatch loop\<close>

record agent_result =
  agent_id :: string
  response :: string

definition not_loaded_result :: "string \<Rightarrow> agent_result" where
  "not_loaded_result a =
     \<lparr>agent_id = a,
      response = ''Error: Agent configurations not loaded in coordinator. Check pipeline valve setup.''\<rparr>"

definition no_config_result :: "string \<Rightarrow> agent_result" where
  "no_config_result a =
     \<lparr>agent_id = a,
      response = ''Error: No configuration found for agent_id '' @ [CHR 0x27] @ a @ [CHR 0x27] @ ''.''\<rparr>"

text \<open>Lines 115 to 119: the model id of one agent, from the value of its \<^verbatim>\<open>model_id\<close> key.\<close>

definition resolve_model_id :: "coordinator \<Rightarrow> json \<Rightarrow> string \<Rightarrow> json" where
  "resolve_model_id c agent_model_id base_model_id =
     (let m1 = (if \<not> truthy agent_model_id then JStr base_model_id else agent_model_id);
          m2 = (if \<not> truthy m1 then JStr (DEFAULT_AGENT_MODEL_ID (c_valves c)) else m1)
      in m2)"

text \<open>Lines 123 to 129: the messages of one agent.\<close>

definition chat_message :: "string \<Rightarrow> json \<Rightarrow> json" where
  "chat_message role content = JObj [(''role'', JStr role), (''content'', content)]"

definition build_messages :: "json \<Rightarrow> json list \<Rightarrow> string \<Rightarrow> json list" where
  "build_messages system_prompt chat_history user_query =
     foldl (\<lambda>msgs msg. msgs @ [msg]) [chat_message ''system'' system_prompt] (slice_last 4 chat_history)
       @ [chat_message ''user'' (JStr user_query)]"

text \<open>
  One turn of the loop of lines 102 to 138, on the results so far, with its prints
  (lines 106, 121 and 133 format the agent id, the model id and the response directly).
  An exception leaves the function; the effects made before it stay in the world.
\<close>

definition process_agent ::
  "environment \<Rightarrow> coordinator \<Rightarrow> string \<Rightarrow> json list \<Rightarrow> string \<Rightarrow> string \<Rightarrow>
   agent_result list \<Rightarrow> world \<Rightarrow> (exn + agent_result list) \<times> world" where
  "process_agent E c user_query chat_history base_model_id a all_agent_results w =
     (case py_get (agent_configs c) a JNull of
        Inl e \<Rightarrow> (Inl e, w)
      | Inr agent_config \<Rightarrow>
          if \<not> truthy agent_config
          then (case py_print E [a] of
                  Inl e \<Rightarrow> (Inl e, w)
                | Inr u \<Rightarrow> (Inr (all_agent_results @ [no_config_result a]), w))
          else
            (case py_get agent_config ''system_prompt'' (JStr ''You are a helpful assistant.'') of
               Inl e \<Rightarrow> (Inl e, w)
             | Inr system_prompt \<Rightarrow>
                 (case py_get agent_config ''model_id'' JNull of
                    Inl e \<Rightarrow> (Inl e, w)
                  | Inr agent_model_id \<Rightarrow>
                      (case py_print E (a # direct_text (resolve_model_id c agent_model_id base_model_id)) of
                         Inl e \<Rightarrow> (Inl e, w)
                       | Inr u \<Rightarrow>
                           (case call_llm E c (build_messages system_prompt chat_history user_query)
                                   (resolve_model_id c agent_model_id base_model_id) w of
                              (Inl e, w') \<Rightarrow> (Inl e, w')
                            | (Inr agent_response_content, w') \<Rightarrow>
                                (case py_print E [a, agent_response_content] of
                                   Inl e \<Rightarrow> (Inl e, w')
                                 | Inr u \<Rightarrow>
                                     (Inr (all_agent_results
                                             @ [\<lparr>agent_id = a, response = agent_response_content\<rparr>]),
                                      w')))))))"

fun flow_loop ::
  "environment \<Rightarrow> coordinator \<Rightarrow> string \<Rightarrow> json list \<Rightarrow> string \<Rightarrow> string list \<Rightarrow>
   agent_result list \<Rightarrow> world \<Rightarrow> (exn + agent_result list) \<times> world" where
  "flow_loop E c user_query chat_history base_model_id [] all_agent_results w =
     (Inr all_agent_results, w)"
| "flow_loop E c user_query chat_history base_model_id (a # agent_ids) all_agent_results w =
     (case process_agent E c user_query chat_history base_model_id a all_agent_results w of
        (Inl e, w') \<Rightarrow> (Inl e, w')
      | (Inr all_agent_results', w') \<Rightarrow>
          flow_loop E c user_query chat_history base_model_id agent_ids all_agent_results' w')"

text \<open>
  \<^verbatim>\<open>manage_multi_agent_flow\<close>. Line 89 prints the query (directly) and the agent ids
  (a list, through \<^verbatim>\<open>repr\<close>) before anything else.
\<close>

definition manage_multi_agent_flow ::
  "environment \<Rightarrow> coordinator \<Rightarrow> string \<Rightarrow> json list \<Rightarrow> string list \<Rightarrow> string \<Rightarrow>
   world \<Rightarrow> (exn + agent_result list) \<times> world" where
  "manage_multi_agent_flow E c user_query chat_history agent_ids base_model_id w =
     (case py_print E [user_query] of
        Inl e \<Rightarrow> (Inl e, w)
      | Inr u \<Rightarrow>
          if \<not> truthy (agent_configs c)
          then (Inr (foldl (\<lambda>rs a. rs @ [not_loaded_result a]) [] agent_ids), w)
          else flow_loop E c user_query chat_history base_model_id agent_ids [] w)"

section \<open>The pipeline\<close>

record pipeline =
  p_valves :: valves
  p_coordinator :: "coordinator option"

text \<open>
  \<^verbatim>\<open>Pipeline.__init__\<close>, on the valves the environment variables gave: a coordinator
  whose constructor raises is replaced by \<^verbatim>\<open>None\<close>, after the exception is printed.
  The coordinator keeps a reference to the valves object it was built with.
\<close>

definition Pipeline_init :: "environment \<Rightarrow> valves \<Rightarrow> exn + pipeline" where
  "Pipeline_init E v =
     (case AgentCoordinator_init E v of
        Inr c \<Rightarrow> Inr \<lparr>p_valves = v, p_coordinator = Some c\<rparr>
      | Inl e \<Rightarrow>
          bind_exn (py_print E [exn_str e]) (\<lambda>u. Inr \<lparr>p_valves = v, p_coordinator = None\<rparr>))"

text \<open>
  \<^verbatim>\<open>on_valves_updated\<close>. In the \<^verbatim>\<open>try\<close> the registry is assigned before \<^verbatim>\<open>len\<close>
  is taken for the message, so a TypeError of \<^verbatim>\<open>len\<close> leaves the hook with the new
  registry in place. The JSONDecodeError handler prints the error, then assigns the empty
  registry. An exception of \<^verbatim>\<open>json.loads\<close> that no handler catches leaves the hook
  with the registry as it was.
\<close>

definition on_valves_updated :: "environment \<Rightarrow> pipeline \<Rightarrow> (exn + unit) \<times> pipeline" where
  "on_valves_updated E p =
     (case p_coordinator p of
        None \<Rightarrow> (Inr (), p)
      | Some c \<Rightarrow>
          (case loads E (AGENT_CONFIGS_JSON (p_valves p)) of
             Inr cfgs \<Rightarrow>
               (bind_exn (py_len cfgs) (\<lambda>n. Inr ()),
                p\<lparr>p_coordinator := Some (c\<lparr>agent_configs := cfgs\<rparr>)\<rparr>)
           | Inl (JSONDecodeError m) \<Rightarrow>
               (case py_print E [m] of
                  Inl e \<Rightarrow> (Inl e, p)
                | Inr u \<Rightarrow> (Inr (), p\<lparr>p_coordinator := Some (c\<lparr>agent_configs := JObj []\<rparr>)\<rparr>))
           | Inl (AttributeError ty attr) \<Rightarrow>
               (Inr (), p\<lparr>p_coordinator := Some (c\<lparr>agent_configs := JObj []\<rparr>)\<rparr>)
           | Inl e \<Rightarrow> (Inl e, p)))"

text \<open>Lines 94 to 99 of \<^verbatim>\<open>pipe\<close>: the agent ids of the request body, or the default pair.\<close>

fun is_str :: "json \<Rightarrow> bool" where
  "is_str (JStr s) = True"
| "is_str v = False"

fun str_val :: "json \<Rightarrow> string" where
  "str_val (JStr s) = s"
| "str_val v = []"

definition default_agent_ids_to_run :: "string list" where
  "default_agent_ids_to_run = [''analyst_agent_v1'', ''default_responder'']"

definition agent_ids_to_run :: "(string \<times> json) list \<Rightarrow> string list" where
  "agent_ids_to_run body =
     (case (case map_of body ''agent_ids'' of Some v \<Rightarrow> v
            | None \<Rightarrow> JArr (map JStr default_agent_ids_to_run)) of
        JArr xs \<Rightarrow> if list_all is_str xs then map str_val xs else default_agent_ids_to_run
      | _ \<Rightarrow> default_agent_ids_to_run)"

definition pipe_base_model_id :: "pipeline \<Rightarrow> string \<Rightarrow> string" where
  "pipe_base_model_id p model_id =
     (if model_id \<noteq> [] then model_id else DEFAULT_AGENT_MODEL_ID (p_valves p))"

definition system_error_result :: agent_result where
  "system_error_result =
     \<lparr>agent_id = ''system_error'',
      response = ''Coordinator not initialized. Cannot process request.''\<rparr>"

definition system_message_result :: agent_result where
  "system_message_result =
     \<lparr>agent_id = ''system_message'',
      response = ''No agents were specified to process this request.''\<rparr>"

text \<open>
  \<^verbatim>\<open>pipe\<close>. Line 89 prints the message and the inbound model id, line 92 the base model
  id, all directly; the lists of lines 98 and 105 go through \<^verbatim>\<open>repr\<close>.
\<close>

definition pipe ::
  "environment \<Rightarrow> pipeline \<Rightarrow> string \<Rightarrow> string \<Rightarrow> json list \<Rightarrow> (string \<times> json) list \<Rightarrow>
   world \<Rightarrow> (exn + agent_result list) \<times> world" where
  "pipe E p user_message model_id messages body w =
     (case p_coordinator p of
        None \<Rightarrow> (Inr [system_error_result], w)
      | Some c \<Rightarrow>
          (case py_print E [user_message, model_id] of
             Inl e \<Rightarrow> (Inl e, w)
           | Inr u \<Rightarrow>
               (let base_model_id = pipe_base_model_id p model_id
                in case py_print E [base_model_id] of
                     Inl e \<Rightarrow> (Inl e, w)
                   | Inr u \<Rightarrow>
                       (let ids = agent_ids_to_run body
                        in if ids = [] then (Inr [system_message_result], w)
                           else manage_multi_agent_flow E c user_message messages ids base_model_id w))))"

section \<open>Reading the registry\<close>

text \<open>
  What the loop finds for an agent id in a registry that is a dict: the value stored
  under the id, \<^verbatim>\<open>None\<close> when there is none. The loop processes an agent when this
  value is truthy.
\<close>

definition lookup_config :: "json \<Rightarrow> string \<Rightarrow> json" where
  "lookup_config cfgs a = (case py_get cfgs a JNull of Inr v \<Rightarrow> v | Inl e \<Rightarrow> JNull)"

definition configured :: "coordinator \<Rightarrow> string \<Rightarrow> bool" where
  "configured c a = truthy (lookup_config (agent_configs c) a)"

text \<open>The value of a key of a configuration, \<open>None\<close> when the key is absent.\<close>

definition field :: "json \<Rightarrow> string \<Rightarrow> json option" where
  "field cfg k = (case cfg of JObj kvs \<Rightarrow> map_of kvs k | _ \<Rightarrow> None)"

text \<open>
  The shape the data model gives the registry: a mapping from agent ids to
  configurations, each of them a mapping.
\<close>

fun is_dict :: "json \<Rightarrow> bool" where
  "is_dict (JObj kvs) = True"
| "is_dict v = False"

definition registry_conforms :: "json \<Rightarrow> bool" where
  "registry_conforms cfgs =
     (case cfgs of JObj kvs \<Rightarrow> list_all (\<lambda>kv. is_dict (snd kv)) kvs | _ \<Rightarrow> False)"

text \<open>The system prompt and the model id the loop reads from a configuration that is a dict.\<close>

definition system_prompt_of :: "json \<Rightarrow> json" where
  "system_prompt_of cfg =
     (case field cfg ''system_prompt'' of Some v \<Rightarrow> v | None \<Rightarrow> JStr ''You are a helpful assistant.'')"

definition model_id_of :: "json \<Rightarrow> json" where
  "model_id_of cfg = (case field cfg ''model_id'' of Some v \<Rightarrow> v | None \<Rightarrow> JNull)"

text \<open>The backend invocation the loop makes for a configured agent.\<close>

definition llm_call_of ::
  "coordinator \<Rightarrow> string \<Rightarrow> json list \<Rightarrow> string \<Rightarrow> string \<Rightarrow> json list \<times> json" where
  "llm_call_of c user_query chat_history base_model_id a =
     (let cfg = lookup_config (agent_configs c) a
      in (build_messages (system_prompt_of cfg) chat_history user_query,
          resolve_model_id c (model_id_of cfg) base_model_id))"

text \<open>
  The data model's configuration: a mapping whose \<^verbatim>\<open>model_id\<close>, when it has one, is a
  string or null; a registry of such configurations.
\<close>

definition config_conforms :: "json \<Rightarrow> bool" where
  "config_conforms cfg =
     (is_dict cfg \<and>
      (case field cfg ''model_id'' of
         None \<Rightarrow> True | Some JNull \<Rightarrow> True | Some (JStr m) \<Rightarrow> True | Some v \<Rightarrow> False))"

definition registry_typed :: "json \<Rightarrow> bool" where
  "registry_typed cfgs =
     (case cfgs of JObj kvs \<Rightarrow> list_all (\<lambda>kv. config_conforms (snd kv)) kvs | _ \<Rightarrow> False)"

text \<open>The model override of a configuration, when it has a string under \<^verbatim>\<open>model_id\<close>.\<close>

definition own_model_id :: "json \<Rightarrow> string option" where
  "own_model_id cfg = (case field cfg ''model_id'' of Some (JStr m) \<Rightarrow> Some m | _ \<Rightarrow> None)"

text \<open>
  The three-level priority in the specification's words: the configuration's own model
  id if present and non-empty, else the base model id if non-empty, else the default.
\<close>

definition spec_model_id :: "string option \<Rightarrow> string \<Rightarrow> string \<Rightarrow> string" where
  "spec_model_id own base dflt =
     (case own of
        Some m \<Rightarrow> if m \<noteq> [] then m else if base \<noteq> [] then base else dflt
      | None \<Rightarrow> if base \<noteq> [] then base else dflt)"


text \<open>An exception that is the failure of a print: a text the standard output does not encode.\<close>

fun print_failure :: "environment \<Rightarrow> exn \<Rightarrow> bool" where
  "print_failure E (UnicodeEncodeError t m) = (\<not> stdout_encodes E t)"
| "print_failure E e = False"

section \<open>A concrete configuration and environment\<close>

text \<open>
  A registry of three agents: \<open>x\<close> with a prompt and a model override, \<open>y\<close> with an
  empty prompt and no override, \<open>z\<close> with no prompt and a null override. The decoder
  of this environment knows the blob of that registry and a few others; the network
  answers every request with one choice whose content is \<^verbatim>\<open>" hello "\<close>; the standard
  output writes every text.
\<close>

definition demo_registry :: json where
  "demo_registry =
     JObj [(''x'', JObj [(''system_prompt'', JStr ''P''), (''model_id'', JStr ''m1'')]),
           (''y'', JObj [(''system_prompt'', JStr [])]),
           (''z'', JObj [(''model_id'', JNull)])]"

definition demo_blob :: string where
  "demo_blob = ''{x: {system_prompt: P, model_id: m1}, y: {system_prompt: }, z: {model_id: null}}''"

definition demo_loads :: "string \<Rightarrow> exn + json" where
  "demo_loads s =
     (if s = demo_blob then Inr demo_registry
      else if s = ''{}'' then Inr (JObj [])
      else if s = ''5'' then Inr (JInt 5)
      else if s = ''[[[[...'' then Inl (OtherError ''RecursionError'' ''maximum recursion depth exceeded'')
      else Inl (JSONDecodeError ''Expecting value: line 1 column 1 (char 0)''))"

definition demo_reply :: json where
  "demo_reply = JObj [(''choices'', JArr [JObj [(''message'', JObj [(''content'', JStr '' hello '')])]])]"

definition demo_net :: "http_request list \<Rightarrow> post_outcome" where
  "demo_net reqs =
     Responded \<lparr>status_code = 200, reason = ''OK'', resp_url = [], body_text = [],
                json_result = Inr demo_reply\<rparr>"

definition demo_env :: environment where
  "demo_env =
     \<lparr>net = demo_net, loads = demo_loads, dumps = (\<lambda>j. ''{...}''),
      stdout_encodes = (\<lambda>t. True), codec_message = (\<lambda>t. [])\<rparr>"



definition demo_valves :: valves where
  "demo_valves =
     \<lparr>OPENAI_API_BASE_URL = ''https://api.openai.com/v1/'', OPENAI_API_KEY = ''k'',
      DEFAULT_AGENT_MODEL_ID = ''m3'', AGENT_CONFIGS_JSON = demo_blob\<rparr>"

definition demo_coordinator :: coordinator where
  "demo_coordinator = \<lparr>c_valves = demo_valves, agent_configs = demo_registry\<rparr>"

definition world0 :: world where
  "world0 = \<lparr>llm_calls = [], posts = []\<rparr>"

text \<open>A history of ten messages, and the pipeline built from the valves above.\<close>

definition demo_history :: "json list" where
  "demo_history = map (\<lambda>i. chat_message ''user'' (JInt i)) [1, 2, 3, 4, 5, 6, 7, 8, 9, 10]"

definition demo_pipeline :: pipeline where
  "demo_pipeline = \<lparr>p_valves = demo_valves, p_coordinator = Some demo_coordinator\<rparr>"


section \<open>What the backend call can raise\<close>

lemma py_print_Inl: "py_print E parts = Inl e \<Longrightarrow> print_failure E e"
proof -
  assume a: "py_print E parts = Inl e"
  show ?thesis
  proof (cases "filter (\<lambda>t. \<not> stdout_encodes E t) parts")
    case Nil
    with a show ?thesis by (simp add: py_print_def)
  next
    case (Cons t ts)
    then have "t \<in> set (filter (\<lambda>t. \<not> stdout_encodes E t) parts)" by simp
    then have "\<not> stdout_encodes E t" by simp
    with a Cons show ?thesis by (auto simp: py_print_def)
  qed
qed

lemma py_print_ok: "list_all (stdout_encodes E) parts \<Longrightarrow> py_print E parts = Inr ()"
proof -
  assume "list_all (stdout_encodes E) parts"
  then have "filter (\<lambda>t. \<not> stdout_encodes E t) parts = []" by (simp add: list_all_iff filter_empty_conv)
  then show ?thesis by (simp add: py_print_def)
qed

lemma py_print_fails: "\<not> stdout_encodes E t \<Longrightarrow> py_print E (t # ts) = Inl (UnicodeEncodeError t (codec_message E t))"
  by (simp add: py_print_def)

lemma py_print_not_http: "py_print E parts \<noteq> Inl (HTTPError m ro)"
  by (simp add: py_print_def split: list.splits)

lemma py_get_not_http: "py_get obj k d \<noteq> Inl (HTTPError m ro)"
  by (cases obj) (simp_all add: py_get_def)

lemma py_getitem_str_not_http: "py_getitem_str obj k \<noteq> Inl (HTTPError m ro)"
  by (cases obj) (simp_all add: py_getitem_str_def split: option.splits)

lemma py_getitem_0_not_http: "py_getitem_0 obj \<noteq> Inl (HTTPError m ro)"
  by (cases obj) (simp_all add: py_getitem_0_def split: list.splits)

lemma py_strip_not_http: "py_strip v \<noteq> Inl (HTTPError m ro)"
  by (cases v) (simp_all add: py_strip_def)

lemma bind_exn_InlE:
  assumes "bind_exn x f = Inl e"
  obtains "x = Inl e" | v where "x = Inr v" and "f v = Inl e"
  using assms by (cases x) (simp_all add: bind_exn_def)

lemma extract_content_not_http: "extract_content E rj \<noteq> Inl (HTTPError m ro)"
  unfolding extract_content_def Let_def
  by (auto elim!: bind_exn_InlE
      simp: py_get_not_http py_getitem_str_not_http py_getitem_0_not_http py_strip_not_http py_print_not_http
      split: if_splits)

lemma llm_try_http: "llm_try E out = Inl (HTTPError m ro) \<Longrightarrow> ro \<noteq> None"
proof (cases out)
  case (PostRaises x)
  assume "llm_try E out = Inl (HTTPError m ro)"
  with PostRaises show ?thesis by (simp add: llm_try_def)
next
  case (Responded r)
  assume h: "llm_try E out = Inl (HTTPError m ro)"
  show ?thesis
  proof (cases "raise_for_status r")
    case (Inl e)
    with h Responded show ?thesis
      by (auto simp: llm_try_def bind_exn_def raise_for_status_def split: if_splits)
  next
    case (Inr u)
    with h Responded have "bind_exn (response_json r) (extract_content E) = Inl (HTTPError m ro)"
      by (simp add: llm_try_def bind_exn_def)
    then show ?thesis
      by (auto elim!: bind_exn_InlE simp: response_json_def extract_content_not_http split: sum.splits)
  qed
qed

lemma print_then_return: "bind_exn (py_print E ps) (\<lambda>u. Inr s) = Inl e \<Longrightarrow> print_failure E e"
  by (auto elim!: bind_exn_InlE dest: py_print_Inl)

lemma llm_except_Inl:
  assumes "llm_except E e = Inl e'" and "\<And>m. e \<noteq> HTTPError m None"
  shows "print_failure E e'"
  using assms
  by (cases e) (auto simp: llm_except_def Let_def dest: print_then_return split: option.splits)

lemma call_llm_Inl:
  assumes "fst (call_llm E c messages model_id w) = Inl e"
  shows "print_failure E e"
proof (cases "py_print E (direct_text model_id)")
  case (Inl e1)
  with assms have "e = e1" by (simp add: call_llm_def Let_def)
  with Inl show ?thesis by (auto dest: py_print_Inl)
next
  case (Inr u)
  show ?thesis
  proof (cases "OPENAI_API_KEY (c_valves c) = []")
    case True
    with Inr assms show ?thesis by (simp add: call_llm_def Let_def)
  next
    case False
    let ?out = "llm_try E (net E (posts w @ [llm_request (c_valves c) messages model_id]))"
    have eq: "fst (call_llm E c messages model_id w) = (case ?out of Inr s \<Rightarrow> Inr s | Inl e \<Rightarrow> llm_except E e)"
      using False Inr by (simp add: call_llm_def Let_def)
    show ?thesis
    proof (cases ?out)
      case (Inl e0)
      have nh: "\<And>m. e0 \<noteq> HTTPError m None" using llm_try_http [of E _ _ None] Inl by auto
      from eq Inl assms have "llm_except E e0 = Inl e" by simp
      then show ?thesis using nh by (rule llm_except_Inl)
    next
      case (Inr s)
      with eq assms show ?thesis by simp
    qed
  qed
qed

lemma call_llm_calls: "llm_calls (snd (call_llm E c messages model_id w)) = llm_calls w @ [(messages, model_id)]"
  by (simp add: call_llm_def Let_def split: sum.splits)

lemma demo_env_prints: "py_print demo_env parts = Inr ()"
  by (rule py_print_ok) (simp add: demo_env_def list_all_iff)

lemma demo_env_no_print_failure: "\<not> print_failure demo_env e"
  by (cases e) (simp_all add: demo_env_def)

section \<open>The dispatch loop, turn by turn\<close>

lemma foldl_snoc_map: "foldl (\<lambda>rs a. rs @ [f a]) acc xs = acc @ map f xs"
  by (induction xs arbitrary: acc) simp_all

lemma foldl_snoc_id: "foldl (\<lambda>msgs msg. msgs @ [msg]) acc xs = acc @ xs"
  by (induction xs arbitrary: acc) simp_all

lemma build_messages_eq:
  "build_messages sp h q = chat_message ''system'' sp # slice_last 4 h @ [chat_message ''user'' (JStr q)]"
  by (simp add: build_messages_def foldl_snoc_id)

lemma registry_conforms_lookup:
  "registry_conforms cfgs \<Longrightarrow> is_dict (lookup_config cfgs a) \<or> lookup_config cfgs a = JNull"
proof (cases cfgs)
  case (JObj kvs)
  assume rc: "registry_conforms cfgs"
  show ?thesis
  proof (cases "map_of kvs a")
    case None
    with JObj show ?thesis by (simp add: lookup_config_def py_get_def)
  next
    case (Some v)
    then have "(a, v) \<in> set kvs" by (rule map_of_SomeD)
    with rc JObj have "is_dict v" by (auto simp: registry_conforms_def list_all_iff)
    with JObj Some show ?thesis by (simp add: lookup_config_def py_get_def)
  qed
qed (simp_all add: registry_conforms_def)

text \<open>One turn on an id whose registry entry is falsy (absent, null, an empty dict, ...).\<close>

lemma process_agent_missing:
  assumes "is_dict (agent_configs c)" and "\<not> configured c a"
  shows "process_agent E c q h base a acc w =
           (case py_print E [a] of Inl e \<Rightarrow> (Inl e, w) | Inr u \<Rightarrow> (Inr (acc @ [no_config_result a]), w))"
  using assms
  by (cases "agent_configs c") (simp_all add: process_agent_def configured_def lookup_config_def py_get_def)

text \<open>One turn on an id whose registry entry is a non-empty dict.\<close>

lemma process_agent_configured:
  assumes "is_dict (agent_configs c)" and "configured c a"
    and "is_dict (lookup_config (agent_configs c) a)"
  shows "process_agent E c q h base a acc w =
           (case py_print E (a # direct_text (snd (llm_call_of c q h base a))) of
              Inl e \<Rightarrow> (Inl e, w)
            | Inr u \<Rightarrow>
               (case call_llm E c (fst (llm_call_of c q h base a)) (snd (llm_call_of c q h base a)) w of
                  (Inl e, w') \<Rightarrow> (Inl e, w')
                | (Inr s, w') \<Rightarrow>
                    (case py_print E [a, s] of
                       Inl e \<Rightarrow> (Inl e, w')
                     | Inr u \<Rightarrow> (Inr (acc @ [\<lparr>agent_id = a, response = s\<rparr>]), w'))))"
proof -
  obtain kvs where kvs: "agent_configs c = JObj kvs" using assms(1) by (cases "agent_configs c") simp_all
  obtain cfg where cfg: "lookup_config (agent_configs c) a = JObj cfg"
    using assms(3) by (cases "lookup_config (agent_configs c) a") simp_all
  have g: "py_get (agent_configs c) a JNull = Inr (JObj cfg)"
    using kvs cfg by (simp add: lookup_config_def py_get_def)
  have t: "truthy (JObj cfg)" using assms(2) cfg by (simp add: configured_def)
  have sp: "py_get (JObj cfg) ''system_prompt'' (JStr ''You are a helpful assistant.'') = Inr (system_prompt_of (JObj cfg))"
    by (simp add: py_get_def system_prompt_of_def field_def split: option.splits)
  have mi: "py_get (JObj cfg) ''model_id'' JNull = Inr (model_id_of (JObj cfg))"
    by (simp add: py_get_def model_id_of_def field_def split: option.splits)
  have lc: "llm_call_of c q h base a =
      (build_messages (system_prompt_of (JObj cfg)) h q, resolve_model_id c (model_id_of (JObj cfg)) base)"
    by (simp add: llm_call_of_def cfg Let_def)
  show ?thesis
    unfolding process_agent_def g lc fst_conv snd_conv using t by (simp add: sp mi)
qed

lemma process_agent_appends:
  assumes "fst (process_agent E c q h base a acc w) = Inr rs"
  shows "\<exists>r. rs = acc @ [r] \<and> agent_id r = a"
  using assms
  by (auto simp: process_agent_def no_config_result_def split: sum.splits if_splits prod.splits)

lemma flow_loop_appends:
  "fst (flow_loop E c q h base ids acc w) = Inr rs \<Longrightarrow> \<exists>new. rs = acc @ new \<and> map agent_id new = ids"
proof (induction ids arbitrary: acc w)
  case Nil
  then show ?case by simp
next
  case (Cons a ids)
  obtain r1 w1 where p: "process_agent E c q h base a acc w = (r1, w1)" by (cases "process_agent E c q h base a acc w")
  show ?case
  proof (cases r1)
    case (Inl e)
    with Cons.prems p show ?thesis by simp
  next
    case (Inr acc1)
    with p have "fst (process_agent E c q h base a acc w) = Inr acc1" by simp
    then obtain r where r: "acc1 = acc @ [r]" "agent_id r = a" using process_agent_appends by blast
    from Cons.prems p Inr have "fst (flow_loop E c q h base ids acc1 w1) = Inr rs" by simp
    then obtain new where "rs = acc1 @ new" "map agent_id new = ids" using Cons.IH by blast
    with r show ?thesis by simp
  qed
qed

text \<open>
  One turn on a registry of the data model: it raises only when a print fails, and
  otherwise invokes the backend once if the id is configured and not at all if not.
\<close>

lemma process_agent_outcome:
  assumes d: "is_dict (agent_configs c)" and rc: "registry_conforms (agent_configs c)"
  shows "(case process_agent E c q h base a acc w of
            (Inr rs, w') \<Rightarrow> llm_calls w' = llm_calls w @ map (llm_call_of c q h base) (filter (configured c) [a])
          | (Inl e, w') \<Rightarrow> print_failure E e)"
proof (cases "configured c a")
  case False
  show ?thesis
    using False process_agent_missing [OF d False, of E q h base acc w]
    by (cases "py_print E [a]") (auto dest: py_print_Inl)
next
  case True
  then have "lookup_config (agent_configs c) a \<noteq> JNull" by (auto simp: configured_def)
  with registry_conforms_lookup [OF rc, of a] have dl: "is_dict (lookup_config (agent_configs c) a)" by simp
  note pc = process_agent_configured [OF d True dl, of E q h base acc w]
  show ?thesis
  proof (cases "py_print E (a # direct_text (snd (llm_call_of c q h base a)))")
    case (Inl e)
    with pc show ?thesis by (auto dest: py_print_Inl)
  next
    case p1: (Inr u)
    let ?call = "call_llm E c (fst (llm_call_of c q h base a)) (snd (llm_call_of c q h base a)) w"
    have calls: "llm_calls (snd ?call) = llm_calls w @ [llm_call_of c q h base a]"
      by (simp add: call_llm_calls)
    show ?thesis
    proof (cases "fst ?call")
      case (Inl e)
      then have "print_failure E e" by (rule call_llm_Inl)
      with pc p1 Inl show ?thesis by (cases ?call) simp
    next
      case (Inr s)
      show ?thesis
      proof (cases "py_print E [a, s]")
        case (Inl e)
        then have "print_failure E e" by (rule py_print_Inl)
        with pc p1 Inr Inl show ?thesis by (cases ?call) simp
      next
        case p2: (Inr u2)
        with pc p1 Inr calls True show ?thesis by (cases ?call) simp
      qed
    qed
  qed
qed

lemma flow_loop_outcome:
  assumes d: "is_dict (agent_configs c)" and rc: "registry_conforms (agent_configs c)"
  shows "(case flow_loop E c q h base ids acc w of
            (Inr rs, w') \<Rightarrow> llm_calls w' = llm_calls w @ map (llm_call_of c q h base) (filter (configured c) ids)
          | (Inl e, w') \<Rightarrow> print_failure E e)"
proof (induction ids arbitrary: acc w)
  case Nil
  then show ?case by simp
next
  case (Cons a ids)
  obtain r1 w1 where p: "process_agent E c q h base a acc w = (r1, w1)" by (cases "process_agent E c q h base a acc w")
  note po = process_agent_outcome [OF d rc, where E = E and q = q and h = h and base = base and a = a and acc = acc and w = w]
  show ?case
  proof (cases r1)
    case (Inl e)
    with p po show ?thesis by simp
  next
    case (Inr acc1)
    with p po have c1: "llm_calls w1 = llm_calls w @ map (llm_call_of c q h base) (filter (configured c) [a])" by simp
    obtain r2 w2 where f: "flow_loop E c q h base ids acc1 w1 = (r2, w2)" by (cases "flow_loop E c q h base ids acc1 w1")
    from Cons.IH [where acc = acc1 and w = w1] f c1 p Inr show ?thesis by (cases r2) auto
  qed
qed

lemma lookup_empty_registry: "\<not> truthy cfgs \<Longrightarrow> lookup_config cfgs a = JNull"
  by (cases cfgs) (simp_all add: lookup_config_def py_get_def)

text \<open>
  The dispatch on a registry of the data model: it returns unless a print fails, and the
  backend invocations it has made then are those of the configured ids, in order.
\<close>

lemma flow_outcome:
  assumes rc: "registry_conforms (agent_configs c)"
  shows "(case manage_multi_agent_flow E c q h ids base w of
            (Inr rs, w') \<Rightarrow> llm_calls w' = llm_calls w @ map (llm_call_of c q h base) (filter (configured c) ids)
          | (Inl e, w') \<Rightarrow> print_failure E e)"
proof (cases "py_print E [q]")
  case (Inl e)
  then show ?thesis by (auto simp: manage_multi_agent_flow_def dest: py_print_Inl)
next
  case (Inr u)
  show ?thesis
  proof (cases "truthy (agent_configs c)")
    case False
    then have "filter (configured c) ids = []"
      by (simp add: configured_def lookup_empty_registry)
    with False Inr show ?thesis by (simp add: manage_multi_agent_flow_def)
  next
    case True
    from rc have "is_dict (agent_configs c)" by (cases "agent_configs c") (simp_all add: registry_conforms_def)
    from flow_loop_outcome [OF this rc, where E = E and q = q and h = h and base = base and ids = ids and acc = "[]" and w = w] True Inr show ?thesis
      by (simp add: manage_multi_agent_flow_def)
  qed
qed

lemma flow_ids:
  assumes "fst (manage_multi_agent_flow E c q h ids base w) = Inr rs"
  shows "map agent_id rs = ids"
proof (cases "py_print E [q]")
  case (Inl e)
  with assms show ?thesis by (simp add: manage_multi_agent_flow_def)
next
  case (Inr u)
  show ?thesis
  proof (cases "truthy (agent_configs c)")
    case False
    with assms Inr show ?thesis
      by (auto simp: manage_multi_agent_flow_def foldl_snoc_map not_loaded_result_def comp_def)
  next
    case True
    with assms Inr have "fst (flow_loop E c q h base ids [] w) = Inr rs" by (simp add: manage_multi_agent_flow_def)
    then show ?thesis using flow_loop_appends by fastforce
  qed
qed

lemma process_agent_prefix:
  "process_agent E c q h base a (pre @ acc) w =
     (case process_agent E c q h base a acc w of (Inl e, w') \<Rightarrow> (Inl e, w') | (Inr rs, w') \<Rightarrow> (Inr (pre @ rs), w'))"
  by (simp add: process_agent_def split: sum.splits prod.splits)

lemma flow_loop_prefix:
  "flow_loop E c q h base ids (pre @ acc) w =
     (case flow_loop E c q h base ids acc w of (Inl e, w') \<Rightarrow> (Inl e, w') | (Inr rs, w') \<Rightarrow> (Inr (pre @ rs), w'))"
proof (induction ids arbitrary: acc w)
  case Nil
  then show ?case by simp
next
  case (Cons a ids)
  show ?case
    by (simp add: process_agent_prefix [of E c q h base a pre acc w] Cons.IH split: sum.splits prod.splits)
qed

lemma flow_loop_append:
  "flow_loop E c q h base (xs @ ys) acc w =
     (case flow_loop E c q h base xs acc w of (Inl e, w') \<Rightarrow> (Inl e, w')
      | (Inr acc', w') \<Rightarrow> flow_loop E c q h base ys acc' w')"
  by (induction xs arbitrary: acc w) (simp_all split: sum.splits prod.splits)

lemma flow_loop_insert_missing:
  assumes d: "is_dict (agent_configs c)" and m: "\<not> configured c a" and enc: "stdout_encodes E a"
  shows "flow_loop E c q h base (pre @ a # post) [] w =
           (case flow_loop E c q h base (pre @ post) [] w of
              (Inl e, w') \<Rightarrow> (Inl e, w')
            | (Inr rs, w') \<Rightarrow> (Inr (take (length pre) rs @ no_config_result a # drop (length pre) rs), w'))"
proof -
  obtain r1 w1 where p: "flow_loop E c q h base pre [] w = (r1, w1)" by (cases "flow_loop E c q h base pre [] w")
  show ?thesis
  proof (cases r1)
    case (Inl e)
    with p show ?thesis by (simp add: flow_loop_append)
  next
    case (Inr rs1)
    with p have "fst (flow_loop E c q h base pre [] w) = Inr rs1" by simp
    then have len: "length rs1 = length pre" using flow_loop_appends [of E c q h base pre "[]" w rs1]
      by (auto dest: arg_cong [where f = length])
    obtain r2 w2 where p2: "flow_loop E c q h base post [] w1 = (r2, w2)" by (cases "flow_loop E c q h base post [] w1")
    have a1: "flow_loop E c q h base post rs1 w1 =
        (case (r2, w2) of (Inl e, w') \<Rightarrow> (Inl e, w') | (Inr rs, w') \<Rightarrow> (Inr (rs1 @ rs), w'))"
      using flow_loop_prefix [of E c q h base post rs1 "[]" w1] p2 by simp
    have a2: "flow_loop E c q h base post (rs1 @ [no_config_result a]) w1 =
        (case (r2, w2) of (Inl e, w') \<Rightarrow> (Inl e, w') | (Inr rs, w') \<Rightarrow> (Inr ((rs1 @ [no_config_result a]) @ rs), w'))"
      using flow_loop_prefix [of E c q h base post "rs1 @ [no_config_result a]" "[]" w1] p2 by simp
    have pm: "process_agent E c q h base a rs1 w1 = (Inr (rs1 @ [no_config_result a]), w1)"
      using process_agent_missing [OF d m, of E q h base rs1 w1] enc by (simp add: py_print_def)
    show ?thesis
      using p Inr len a1 a2 pm
      by (cases r2) (simp_all add: flow_loop_append)
  qed
qed

text \<open>An absent id whose warning line can be printed costs nothing but its own entry.\<close>

lemma missing_agent_is_reported_and_skipped:
  assumes "agent_configs c = JObj kvs" and "kvs \<noteq> []" and "map_of kvs a = None" and "stdout_encodes E a"
  shows "manage_multi_agent_flow E c user_query chat_history (before @ a # after) base_model_id w =
           (case manage_multi_agent_flow E c user_query chat_history (before @ after) base_model_id w of
              (Inl e, w') \<Rightarrow> (Inl e, w')
            | (Inr rs, w') \<Rightarrow>
                (Inr (take (length before) rs @ no_config_result a # drop (length before) rs), w'))"
proof -
  have d: "is_dict (agent_configs c)" and t: "truthy (agent_configs c)" using assms by simp_all
  have m: "\<not> configured c a" using assms by (simp add: configured_def lookup_config_def py_get_def)
  show ?thesis using t flow_loop_insert_missing [OF d m assms(4)]
    by (simp add: manage_multi_agent_flow_def split: sum.splits)
qed

section \<open>Registries of the data model\<close>

lemma registry_typed_lookup:
  "registry_typed cfgs \<Longrightarrow> truthy (lookup_config cfgs a) \<Longrightarrow> config_conforms (lookup_config cfgs a)"
proof (cases cfgs)
  case (JObj kvs)
  assume rt: "registry_typed cfgs" and t: "truthy (lookup_config cfgs a)"
  show ?thesis
  proof (cases "map_of kvs a")
    case None
    with JObj t show ?thesis by (simp add: lookup_config_def py_get_def)
  next
    case (Some v)
    then have "(a, v) \<in> set kvs" by (rule map_of_SomeD)
    with rt JObj have "config_conforms v" by (auto simp: registry_typed_def list_all_iff)
    with JObj Some show ?thesis by (simp add: lookup_config_def py_get_def)
  qed
qed (simp_all add: registry_typed_def)

lemma registry_typed_conforms: "registry_typed cfgs \<Longrightarrow> registry_conforms cfgs"
  by (cases cfgs) (auto simp: registry_typed_def registry_conforms_def config_conforms_def list_all_iff)

lemma resolve_refines:
  assumes "config_conforms cfg"
  shows "resolve_model_id c (model_id_of cfg) base =
           JStr (spec_model_id (own_model_id cfg) base (DEFAULT_AGENT_MODEL_ID (c_valves c)))"
proof (cases "field cfg ''model_id''")
  case None
  then show ?thesis
    by (simp add: resolve_model_id_def model_id_of_def own_model_id_def spec_model_id_def)
next
  case (Some v)
  with assms show ?thesis
    by (cases v) (simp_all add: config_conforms_def resolve_model_id_def model_id_of_def own_model_id_def spec_model_id_def)
qed

lemma demo_registry_typed: "registry_typed (agent_configs demo_coordinator)"
  by (simp add: demo_coordinator_def demo_registry_def registry_typed_def config_conforms_def field_def)

lemma demo_configured:
  "configured demo_coordinator ''x''" "configured demo_coordinator ''y''" "configured demo_coordinator ''z''"
  "\<not> configured demo_coordinator ''nope''"
  by (simp_all add: configured_def lookup_config_def py_get_def demo_coordinator_def demo_registry_def)

lemma slice_last_suffix: "take (length xs - n) xs @ slice_last n xs = xs"
proof -
  have "nat (max (int (length xs) - int n) 0) = length xs - n" by simp
  then show ?thesis by (simp add: slice_last_def)
qed

lemma slice_last_length: "length (slice_last n xs) = min n (length xs)"
proof -
  have "nat (max (int (length xs) - int n) 0) = length xs - n" by simp
  then show ?thesis by (simp add: slice_last_def)
qed

lemma demo_registry_conforms: "registry_conforms (agent_configs demo_coordinator)"
  by (rule registry_typed_conforms) (rule demo_registry_typed)

lemma demo_pipeline_coordinator: "p_coordinator demo_pipeline = Some demo_coordinator"
  by (simp add: demo_pipeline_def)

lemma demo_pipeline_init: "Pipeline_init demo_env demo_valves = Inr demo_pipeline"
  by (simp add: demo_pipeline_def Pipeline_init_def AgentCoordinator_init_def demo_env_def demo_loads_def
      demo_valves_def demo_coordinator_def demo_registry_def py_len_def bind_exn_def)

lemma flow_returns_demo:
  assumes "registry_conforms (agent_configs c)"
  shows "\<exists>rs w'. manage_multi_agent_flow demo_env c q h ids base w = (Inr rs, w')"
proof -
  obtain r w' where f: "manage_multi_agent_flow demo_env c q h ids base w = (r, w')"
    by (cases "manage_multi_agent_flow demo_env c q h ids base w")
  show ?thesis
    using flow_outcome [OF assms, where E = demo_env and q = q and h = h and ids = ids and base = base and w = w] f
    by (cases r) (simp_all add: demo_env_no_print_failure)
qed

section \<open>Where the default model id is read\<close>







text \<open>
  The constructor hands the coordinator the pipeline's valves, and the reload hook
  touches neither: as far as this program goes, the two stay the same object.
\<close>

lemma init_shares_valves:
  assumes "Pipeline_init E v = Inr p" and "p_coordinator p = Some c"
  shows "c_valves c = p_valves p"
proof (cases "AgentCoordinator_init E v")
  case (Inl e)
  with assms show ?thesis by (auto simp: Pipeline_init_def bind_exn_def split: sum.splits)
next
  case (Inr c')
  with assms have "p = \<lparr>p_valves = v, p_coordinator = Some c'\<rparr>" by (simp add: Pipeline_init_def)
  with assms have "c' = c" "p_valves p = v" by simp_all
  moreover have "c_valves c' = v"
    using Inr
    by (auto simp: AgentCoordinator_init_def bind_exn_def split: sum.splits exn.splits)
  ultimately show ?thesis by simp
qed

lemma reload_keeps_valves:
  assumes "p_coordinator p = Some c" and "c_valves c = p_valves p"
  shows "\<exists>c'. p_coordinator (snd (on_valves_updated E p)) = Some c' \<and>
           c_valves c' = p_valves (snd (on_valves_updated E p))"
  using assms by (auto simp: on_valves_updated_def split: sum.splits exn.splits)

section \<open>One result per requested agent\<close>

text \<open>
  Claim C1. Whatever the registry (empty or not) and whatever the list of agent ids
  (duplicates included), the list \<^verbatim>\<open>manage_multi_agent_flow\<close> returns has one result per
  input id, in the input's order: the ids of the results, read off in order, are the
  input list. It does return whenever the registry has the shape of the data model (a
  mapping from ids to mappings) and its log lines can be printed; it is left by an
  exception only when a print fails, or on a registry or an entry that is truthy and not a
  dict, on which \<^verbatim>\<open>.get\<close> raises AttributeError.
\<close>

theorem flow_one_result_per_agent_id:
  "(case fst (manage_multi_agent_flow E c user_query chat_history agent_ids base_model_id w) of
      Inr rs \<Rightarrow> map agent_id rs = agent_ids
    | Inl e \<Rightarrow> print_failure E e \<or> \<not> registry_conforms (agent_configs c))"
proof (cases "fst (manage_multi_agent_flow E c user_query chat_history agent_ids base_model_id w)")
  case (Inl e)
  have "print_failure E e" if "registry_conforms (agent_configs c)"
    using flow_outcome [OF that, where E = E and q = user_query and h = chat_history and ids = agent_ids and base = base_model_id and w = w] Inl
    by (cases "manage_multi_agent_flow E c user_query chat_history agent_ids base_model_id w") simp
  with Inl show ?thesis by auto
next
  case (Inr rs)
  then show ?thesis using flow_ids by simp
qed

theorem flow_one_result_per_agent_id_witness:
  "registry_conforms (agent_configs demo_coordinator) \<and>
   (\<exists>rs. fst (manage_multi_agent_flow demo_env demo_coordinator ''q'' [] [''x'', ''nope'', ''x''] ''m2'' world0) = Inr rs
      \<and> map agent_id rs = [''x'', ''nope'', ''x''])"
proof -
  have rc: "registry_conforms (agent_configs demo_coordinator)"
    by (simp add: demo_coordinator_def demo_registry_def registry_conforms_def)
  from flow_one_result_per_agent_id [where E = demo_env and c = demo_coordinator and user_query = "''q''"
      and chat_history = "[]" and agent_ids = "[''x'', ''nope'', ''x'']" and base_model_id = "''m2''" and w = world0] rc
  show ?thesis
    by (cases "fst (manage_multi_agent_flow demo_env demo_coordinator ''q'' [] [''x'', ''nope'', ''x''] ''m2'' world0)")
       (simp_all add: demo_env_no_print_failure)
qed

section \<open>Model id resolution\<close>

text \<open>
  Claim C2. On a registry of the data model, the model ids the dispatch passes to the
  backend, in order, are those of the specification's three-level priority, one for each
  requested id the registry has a configuration for: the configuration's own
  \<^verbatim>\<open>model_id\<close> if present and non-empty, else the base model id if non-empty, else the
  default model id of the valves. The dispatch returns unless one of its prints fails.
  (An entry that is null or an empty dict counts as no configuration: the loop reports it
  as not found.)
\<close>

theorem model_id_three_level_priority:
  assumes "registry_typed (agent_configs c)"
  shows "(case manage_multi_agent_flow E c user_query chat_history agent_ids base_model_id w of
            (Inr rs, w') \<Rightarrow>
              map snd (llm_calls w') =
                map snd (llm_calls w) @
                map (\<lambda>a. JStr (spec_model_id (own_model_id (lookup_config (agent_configs c) a))
                                  base_model_id (DEFAULT_AGENT_MODEL_ID (c_valves c))))
                    (filter (configured c) agent_ids)
          | (Inl e, w') \<Rightarrow> print_failure E e)"
proof -
  from assms have rc: "registry_conforms (agent_configs c)" by (rule registry_typed_conforms)
  have m: "map (\<lambda>a. snd (llm_call_of c user_query chat_history base_model_id a)) (filter (configured c) agent_ids) =
        map (\<lambda>a. JStr (spec_model_id (own_model_id (lookup_config (agent_configs c) a))
                               base_model_id (DEFAULT_AGENT_MODEL_ID (c_valves c))))
                 (filter (configured c) agent_ids)"
  proof (rule map_cong [OF refl])
    fix a assume "a \<in> set (filter (configured c) agent_ids)"
    then have "truthy (lookup_config (agent_configs c) a)" by (simp add: configured_def)
    with assms have "config_conforms (lookup_config (agent_configs c) a)" by (rule registry_typed_lookup)
    then show "snd (llm_call_of c user_query chat_history base_model_id a) =
        JStr (spec_model_id (own_model_id (lookup_config (agent_configs c) a)) base_model_id (DEFAULT_AGENT_MODEL_ID (c_valves c)))"
      by (simp add: llm_call_of_def Let_def resolve_refines)
  qed
  obtain r w' where f: "manage_multi_agent_flow E c user_query chat_history agent_ids base_model_id w = (r, w')"
    by (cases "manage_multi_agent_flow E c user_query chat_history agent_ids base_model_id w")
  show ?thesis
    using flow_outcome [OF rc, where E = E and q = user_query and h = chat_history and ids = agent_ids
        and base = base_model_id and w = w] f m
    by (cases r) (simp_all add: comp_def)
qed

theorem model_id_three_level_priority_witness:
  "registry_typed (agent_configs demo_coordinator) \<and>
   (\<exists>rs w'. manage_multi_agent_flow demo_env demo_coordinator ''q'' [] [''x'', ''y''] ''m2'' world0 = (Inr rs, w') \<and>
      map snd (llm_calls w') = [JStr ''m1'', JStr ''m2'']) \<and>
   (\<exists>rs w'. manage_multi_agent_flow demo_env demo_coordinator ''q'' [] [''y'', ''z''] [] world0 = (Inr rs, w') \<and>
      map snd (llm_calls w') = [JStr ''m3'', JStr ''m3''])"
proof -
  have own: "own_model_id (lookup_config (agent_configs demo_coordinator) ''x'') = Some ''m1''"
    "own_model_id (lookup_config (agent_configs demo_coordinator) ''y'') = None"
    "own_model_id (lookup_config (agent_configs demo_coordinator) ''z'') = None"
    by (simp_all add: own_model_id_def field_def lookup_config_def py_get_def demo_coordinator_def demo_registry_def)
  have dflt: "DEFAULT_AGENT_MODEL_ID (c_valves demo_coordinator) = ''m3''"
    by (simp add: demo_coordinator_def demo_valves_def)
  have w0: "llm_calls world0 = []" by (simp add: world0_def)
  obtain rs1 w1 where f1: "manage_multi_agent_flow demo_env demo_coordinator ''q'' [] [''x'', ''y''] ''m2'' world0 = (Inr rs1, w1)"
    using flow_returns_demo [OF demo_registry_conforms] by blast
  obtain rs2 w2 where f2: "manage_multi_agent_flow demo_env demo_coordinator ''q'' [] [''y'', ''z''] [] world0 = (Inr rs2, w2)"
    using flow_returns_demo [OF demo_registry_conforms] by blast
  have c1: "map snd (llm_calls w1) = [JStr ''m1'', JStr ''m2'']"
    using model_id_three_level_priority [OF demo_registry_typed, where E = demo_env and user_query = "''q''"
        and chat_history = "[]" and agent_ids = "[''x'', ''y'']" and base_model_id = "''m2''" and w = world0] f1
    by (simp add: demo_configured own dflt w0 spec_model_id_def)
  have c2: "map snd (llm_calls w2) = [JStr ''m3'', JStr ''m3'']"
    using model_id_three_level_priority [OF demo_registry_typed, where E = demo_env and user_query = "''q''"
        and chat_history = "[]" and agent_ids = "[''y'', ''z'']" and base_model_id = "[]" and w = world0] f2
    by (simp add: demo_configured own dflt w0 spec_model_id_def)
  from demo_registry_typed f1 c1 f2 c2 show ?thesis by simp
qed

section \<open>The message context\<close>

text \<open>
  Claim C3. On a registry of the shape of the data model, the message list of each
  backend invocation (one for each requested id with a configuration, in order) is: one
  message of role \<^verbatim>\<open>system\<close>, then the slice \<^verbatim>\<open>chat_history[-4:]\<close>, then one
  message of role \<^verbatim>\<open>user\<close> whose content is the query. The slice is a suffix of the
  history, so in its original order, of length 4, or the whole history when that has
  fewer than 4 entries. The dispatch returns unless one of its prints fails.
\<close>

theorem context_is_system_last_four_user:
  assumes "registry_conforms (agent_configs c)"
  shows "(case manage_multi_agent_flow E c user_query chat_history agent_ids base_model_id w of
            (Inr rs, w') \<Rightarrow>
              map fst (llm_calls w') =
                map fst (llm_calls w) @
                map (\<lambda>a. JObj [(''role'', JStr ''system''),
                                 (''content'', system_prompt_of (lookup_config (agent_configs c) a))]
                           # slice_last 4 chat_history
                           @ [JObj [(''role'', JStr ''user''), (''content'', JStr user_query)]])
                    (filter (configured c) agent_ids)
          | (Inl e, w') \<Rightarrow> print_failure E e) \<and>
         (\<exists>older. chat_history = older @ slice_last 4 chat_history) \<and>
         length (slice_last 4 chat_history) = min 4 (length chat_history)"
proof -
  obtain r w' where f: "manage_multi_agent_flow E c user_query chat_history agent_ids base_model_id w = (r, w')"
    by (cases "manage_multi_agent_flow E c user_query chat_history agent_ids base_model_id w")
  have older: "\<exists>older. chat_history = older @ slice_last 4 chat_history"
    using slice_last_suffix [of chat_history 4] by metis
  have "(case (r, w') of
            (Inr rs, w') \<Rightarrow>
              map fst (llm_calls w') =
                map fst (llm_calls w) @
                map (\<lambda>a. JObj [(''role'', JStr ''system''),
                                 (''content'', system_prompt_of (lookup_config (agent_configs c) a))]
                           # slice_last 4 chat_history
                           @ [JObj [(''role'', JStr ''user''), (''content'', JStr user_query)]])
                    (filter (configured c) agent_ids)
          | (Inl e, w') \<Rightarrow> print_failure E e)"
    using flow_outcome [OF assms, where E = E and q = user_query and h = chat_history and ids = agent_ids
        and base = base_model_id and w = w] f
    by (cases r) (simp_all add: comp_def llm_call_of_def Let_def build_messages_eq chat_message_def)
  with f older show ?thesis by (simp add: slice_last_length)
qed

theorem context_is_system_last_four_user_witness:
  "registry_conforms (agent_configs demo_coordinator) \<and>
   (\<exists>rs w'. manage_multi_agent_flow demo_env demo_coordinator ''q'' demo_history [''x''] ''m2'' world0 = (Inr rs, w') \<and>
      map fst (llm_calls w') =
        [[JObj [(''role'', JStr ''system''), (''content'', JStr ''P'')],
          JObj [(''role'', JStr ''user''), (''content'', JInt 7)],
          JObj [(''role'', JStr ''user''), (''content'', JInt 8)],
          JObj [(''role'', JStr ''user''), (''content'', JInt 9)],
          JObj [(''role'', JStr ''user''), (''content'', JInt 10)],
          JObj [(''role'', JStr ''user''), (''content'', JStr ''q'')]]]) \<and>
   (\<exists>rs w'. manage_multi_agent_flow demo_env demo_coordinator ''q'' (take 2 demo_history) [''x''] ''m2'' world0 = (Inr rs, w') \<and>
      map fst (llm_calls w') =
        [[JObj [(''role'', JStr ''system''), (''content'', JStr ''P'')],
          JObj [(''role'', JStr ''user''), (''content'', JInt 1)],
          JObj [(''role'', JStr ''user''), (''content'', JInt 2)],
          JObj [(''role'', JStr ''user''), (''content'', JStr ''q'')]]])"
proof -
  have sp: "system_prompt_of (lookup_config (agent_configs demo_coordinator) ''x'') = JStr ''P''"
    by (simp add: system_prompt_of_def field_def lookup_config_def py_get_def demo_coordinator_def demo_registry_def)
  have w0: "llm_calls world0 = []" by (simp add: world0_def)
  have s10: "slice_last 4 demo_history =
      [JObj [(''role'', JStr ''user''), (''content'', JInt 7)],
       JObj [(''role'', JStr ''user''), (''content'', JInt 8)],
       JObj [(''role'', JStr ''user''), (''content'', JInt 9)],
       JObj [(''role'', JStr ''user''), (''content'', JInt 10)]]"
    by (simp add: slice_last_def demo_history_def chat_message_def)
  have s2: "slice_last 4 (take 2 demo_history) =
      [JObj [(''role'', JStr ''user''), (''content'', JInt 1)],
       JObj [(''role'', JStr ''user''), (''content'', JInt 2)]]"
    by (simp add: slice_last_def demo_history_def chat_message_def)
  obtain rs1 w1 where f1: "manage_multi_agent_flow demo_env demo_coordinator ''q'' demo_history [''x''] ''m2'' world0 = (Inr rs1, w1)"
    using flow_returns_demo [OF demo_registry_conforms] by blast
  obtain rs2 w2 where f2: "manage_multi_agent_flow demo_env demo_coordinator ''q'' (take 2 demo_history) [''x''] ''m2'' world0 = (Inr rs2, w2)"
    using flow_returns_demo [OF demo_registry_conforms] by blast
  have c1: "map fst (llm_calls w1) =
        [[JObj [(''role'', JStr ''system''), (''content'', JStr ''P'')],
          JObj [(''role'', JStr ''user''), (''content'', JInt 7)],
          JObj [(''role'', JStr ''user''), (''content'', JInt 8)],
          JObj [(''role'', JStr ''user''), (''content'', JInt 9)],
          JObj [(''role'', JStr ''user''), (''content'', JInt 10)],
          JObj [(''role'', JStr ''user''), (''content'', JStr ''q'')]]]"
    using context_is_system_last_four_user [OF demo_registry_conforms, where E = demo_env and user_query = "''q''"
        and chat_history = demo_history and agent_ids = "[''x'']" and base_model_id = "''m2''" and w = world0] f1
    by (simp add: demo_configured sp w0 s10)
  have c2: "map fst (llm_calls w2) =
        [[JObj [(''role'', JStr ''system''), (''content'', JStr ''P'')],
          JObj [(''role'', JStr ''user''), (''content'', JInt 1)],
          JObj [(''role'', JStr ''user''), (''content'', JInt 2)],
          JObj [(''role'', JStr ''user''), (''content'', JStr ''q'')]]]"
    using context_is_system_last_four_user [OF demo_registry_conforms, where E = demo_env and user_query = "''q''"
        and chat_history = "take 2 demo_history" and agent_ids = "[''x'']" and base_model_id = "''m2''" and w = world0] f2
    by (simp add: demo_configured sp w0 s2)
  from demo_registry_conforms f1 c1 f2 c2 show ?thesis by simp
qed

section \<open>The empty registry\<close>



section \<open>An agent id the registry does not have\<close>


section \<open>What the backend call raises\<close>


section \<open>Reloading the registry\<close>




section \<open>A request with no agent ids\<close>

text \<open>
  Claim C8. A request whose \<^verbatim>\<open>agent_ids\<close> is the empty list gets one entry, never an
  empty list: the informational "no agents were specified" entry whenever the pipeline
  has its coordinator (the "coordinator not initialized" entry otherwise). \<^verbatim>\<open>pipe\<close>
  returns it at line 103, before it calls the coordinator, so before the registry is
  looked at: the result does not depend on the registry and the world is unchanged, with
  no backend invocation. The only other way out is a failed print of the message or the
  model id on lines 89 and 92, of which the claim does not speak.
\<close>

theorem empty_agent_ids_informational:
  assumes "map_of body ''agent_ids'' = Some (JArr [])"
  shows "snd (pipe E p user_message model_id messages body w) = w \<and>
         (case fst (pipe E p user_message model_id messages body w) of
            Inr rs \<Rightarrow>
              rs = [case p_coordinator p of None \<Rightarrow> system_error_result | Some c \<Rightarrow> system_message_result]
          | Inl e \<Rightarrow>
              print_failure E e \<and>
              \<not> list_all (stdout_encodes E) [user_message, model_id, pipe_base_model_id p model_id])"
proof (cases "p_coordinator p")
  case None
  then show ?thesis by (simp add: pipe_def)
next
  case (Some c)
  show ?thesis
  proof (cases "py_print E [user_message, model_id]")
    case (Inl e)
    then have "print_failure E e" by (rule py_print_Inl)
    moreover have "\<not> list_all (stdout_encodes E) [user_message, model_id]"
      using Inl py_print_ok [of E "[user_message, model_id]"] by auto
    ultimately show ?thesis using Some Inl by (auto simp: pipe_def)
  next
    case p1: (Inr u)
    show ?thesis
    proof (cases "py_print E [pipe_base_model_id p model_id]")
      case (Inl e)
      then have "print_failure E e" by (rule py_print_Inl)
      moreover have "\<not> list_all (stdout_encodes E) [pipe_base_model_id p model_id]"
        using Inl py_print_ok [of E "[pipe_base_model_id p model_id]"] by auto
      ultimately show ?thesis using Some p1 Inl by (auto simp: pipe_def Let_def)
    next
      case (Inr u2)
      with Some p1 assms show ?thesis by (simp add: pipe_def Let_def agent_ids_to_run_def)
    qed
  qed
qed

theorem empty_agent_ids_informational_witness:
  "map_of [(''agent_ids'', JArr [])] ''agent_ids'' = Some (JArr []) \<and>
   pipe demo_env demo_pipeline ''q'' ''m2'' [] [(''agent_ids'', JArr [])] world0 =
     (Inr [\<lparr>agent_id = ''system_message'', response = ''No agents were specified to process this request.''\<rparr>], world0)"
proof -
  have b: "map_of [(''agent_ids'', JArr [])] ''agent_ids'' = Some (JArr [])" by simp
  show ?thesis
    using b empty_agent_ids_informational [OF b, of demo_env demo_pipeline "''q''" "''m2''" "[]" world0]
    by (cases "pipe demo_env demo_pipeline ''q'' ''m2'' [] [(''agent_ids'', JArr [])] world0";
        cases "fst (pipe demo_env demo_pipeline ''q'' ''m2'' [] [(''agent_ids'', JArr [])] world0)")
       (simp_all add: system_message_result_def demo_pipeline_coordinator demo_env_no_print_failure)
qed

section \<open>The system prompt\<close>

text \<open>
  Claim C9 says that an empty \<^verbatim>\<open>system_prompt\<close> falls back to the generic assistant
  prompt. Line 113 is \<^verbatim>\<open>agent_config.get("system_prompt", "You are a helpful
  assistant.")\<close>: the default is taken only when the key is absent. Agent \<open>y\<close>, whose
  prompt is the empty string, is sent an empty system message.
\<close>

theorem empty_system_prompt_counterexample:
  "field (lookup_config (agent_configs demo_coordinator) ''y'') ''system_prompt'' = Some (JStr []) \<and>
   map fst (llm_calls (snd (manage_multi_agent_flow demo_env demo_coordinator ''q'' [] [''y''] ''m2'' world0))) =
     [[chat_message ''system'' (JStr []), chat_message ''user'' (JStr ''q'')]] \<and>
   chat_message ''system'' (JStr []) \<noteq> chat_message ''system'' (JStr ''You are a helpful assistant.'')"
proof -
  have a: "field (lookup_config (agent_configs demo_coordinator) ''y'') ''system_prompt'' = Some (JStr [])"
    by (simp add: field_def lookup_config_def py_get_def demo_coordinator_def demo_registry_def)
  have b: "map fst (llm_calls (snd (manage_multi_agent_flow demo_env demo_coordinator ''q'' [] [''y''] ''m2'' world0))) =
     [[chat_message ''system'' (JStr []), chat_message ''user'' (JStr ''q'')]]"
    by code_simp
  have c: "chat_message ''system'' (JStr []) \<noteq> chat_message ''system'' (JStr ''You are a helpful assistant.'')"
    by (simp add: chat_message_def)
  from a b c show ?thesis by simp
qed

text \<open>
  Claim C9, as the code has it. For every requested id with a configuration, the system
  message of its backend invocation is the value stored under \<^verbatim>\<open>system_prompt\<close>
  when the configuration has that key (whatever the value: an empty string stays empty),
  and the generic assistant prompt when it has not. The dispatch returns unless one of its
  prints fails.
\<close>

theorem system_prompt_default_only_when_absent:
  assumes "registry_conforms (agent_configs c)"
  shows "(case manage_multi_agent_flow E c user_query chat_history agent_ids base_model_id w of
            (Inr rs, w') \<Rightarrow>
              map (\<lambda>call. hd (fst call)) (llm_calls w') =
                map (\<lambda>call. hd (fst call)) (llm_calls w) @
                map (\<lambda>a. chat_message ''system''
                            (case field (lookup_config (agent_configs c) a) ''system_prompt'' of
                               None \<Rightarrow> JStr ''You are a helpful assistant.''
                             | Some v \<Rightarrow> v))
                    (filter (configured c) agent_ids)
          | (Inl e, w') \<Rightarrow> print_failure E e)"
proof -
  obtain r w' where f: "manage_multi_agent_flow E c user_query chat_history agent_ids base_model_id w = (r, w')"
    by (cases "manage_multi_agent_flow E c user_query chat_history agent_ids base_model_id w")
  show ?thesis
    using flow_outcome [OF assms, where E = E and q = user_query and h = chat_history and ids = agent_ids
        and base = base_model_id and w = w] f
    by (cases r)
       (simp_all add: comp_def llm_call_of_def Let_def build_messages_eq system_prompt_of_def
          split: option.splits cong: map_cong)
qed

theorem system_prompt_default_only_when_absent_witness:
  "registry_conforms (agent_configs demo_coordinator) \<and>
   (\<exists>rs w'. manage_multi_agent_flow demo_env demo_coordinator ''q'' [] [''x'', ''y'', ''z''] ''m2'' world0 = (Inr rs, w') \<and>
      map (\<lambda>call. hd (fst call)) (llm_calls w') =
        [chat_message ''system'' (JStr ''P''), chat_message ''system'' (JStr []),
         chat_message ''system'' (JStr ''You are a helpful assistant.'')])"
proof -
  have fl: "field (lookup_config (agent_configs demo_coordinator) ''x'') ''system_prompt'' = Some (JStr ''P'')"
    "field (lookup_config (agent_configs demo_coordinator) ''y'') ''system_prompt'' = Some (JStr [])"
    "field (lookup_config (agent_configs demo_coordinator) ''z'') ''system_prompt'' = None"
    by (simp_all add: field_def lookup_config_def py_get_def demo_coordinator_def demo_registry_def)
  have w0: "llm_calls world0 = []" by (simp add: world0_def)
  obtain rs1 w1 where f1: "manage_multi_agent_flow demo_env demo_coordinator ''q'' [] [''x'', ''y'', ''z''] ''m2'' world0 = (Inr rs1, w1)"
    using flow_returns_demo [OF demo_registry_conforms] by blast
  have c1: "map (\<lambda>call. hd (fst call)) (llm_calls w1) =
        [chat_message ''system'' (JStr ''P''), chat_message ''system'' (JStr []),
         chat_message ''system'' (JStr ''You are a helpful assistant.'')]"
    using system_prompt_default_only_when_absent [OF demo_registry_conforms, where E = demo_env and user_query = "''q''"
        and chat_history = "[]" and agent_ids = "[''x'', ''y'', ''z'']" and base_model_id = "''m2''" and w = world0] f1
    by (simp add: demo_configured fl w0)
  from demo_registry_conforms f1 c1 show ?thesis by simp
qed

section \<open>The default model id through the pipeline\<close>




end
